theory Spec2Isabelle
  imports Main
begin

section \<open>Actors, guilds and the invocation context\<close>

text \<open>
  The module \<^verbatim>\<open>disctools/context.py\<close> extends the command context of discord.py.
  The actor classes, their equality and the role ordering belong to that library; the
  model below records what the module relies on: every actor has an id, only a
  \<^verbatim>\<open>Member\<close> carries a \<^verbatim>\<open>top_role\<close>, and \<^verbatim>\<open>==\<close> between actors compares ids.
  The role rank is any ordered type \<open>'r\<close>.
\<close>

datatype 'r actor =
    User nat
  | ClientUser nat
  | Member nat 'r

fun actor_id :: "'r actor \<Rightarrow> nat" where
  "actor_id (User i) = i"
| "actor_id (ClientUser i) = i"
| "actor_id (Member i r) = i"

text \<open>Attribute access \<^verbatim>\<open>x.top_role\<close>: \<open>None\<close> stands for the AttributeError.\<close>

fun top_role :: "'r actor \<Rightarrow> 'r option" where
  "top_role (Member i r) = Some r"
| "top_role (User i) = None"
| "top_role (ClientUser i) = None"

text \<open>\<^verbatim>\<open>isinstance(x, discord.Member)\<close>.\<close>

fun isinstance_Member :: "'r actor \<Rightarrow> bool" where
  "isinstance_Member (Member i r) = True"
| "isinstance_Member (User i) = False"
| "isinstance_Member (ClientUser i) = False"

text \<open>The text that \<^verbatim>\<open>{type(x)}\<close> puts into a formatted message.\<close>

fun type_repr :: "'r actor \<Rightarrow> string" where
  "type_repr (User i) = ''<class 'discord.user.User'>''"
| "type_repr (ClientUser i) = ''<class 'discord.user.ClientUser'>''"
| "type_repr (Member i r) = ''<class 'discord.member.Member'>''"

text \<open>
  The platform's actor equality: two actors are equal when their ids are, whatever
  their classes. Comparing an actor with \<^verbatim>\<open>None\<close> is false.
\<close>

definition actor_eq :: "'r actor \<Rightarrow> 'r actor \<Rightarrow> bool" where
  "actor_eq a b = (actor_id a = actor_id b)"

fun eq_optional :: "'r actor \<Rightarrow> 'r actor option \<Rightarrow> bool" where
  "eq_optional a None = False"
| "eq_optional a (Some b) = actor_eq a b"

text \<open>\<^verbatim>\<open>x in xs\<close> on a sequence of actors.\<close>

definition contains :: "'r actor \<Rightarrow> 'r actor list \<Rightarrow> bool" where
  "contains x xs = list_ex (\<lambda>y. actor_eq x y) xs"

datatype error = ValueError string | TypeError string

record 'r guild =
  owner :: "'r actor option"

text \<open>
  The fields of a \<^verbatim>\<open>TargetContext\<close> that the module reads or writes, once
  \<^verbatim>\<open>__init__\<close> has stored the mentions of the message. The field \<open>target\<close> is
  \<^verbatim>\<open>_target\<close>: a reference to a sequence object; \<open>qualname\<close> is
  \<^verbatim>\<open>self.__class__.__qualname__\<close>.
\<close>

type_synonym seq_ref = nat

record 'r target_context =
  author :: "'r actor"
  me :: "'r actor"
  guild :: "'r guild option"
  target :: seq_ref
  qualname :: string

text \<open>
  A value of type \<^verbatim>\<open>Union[T, Sequence[T]]\<close>: a lone actor, or a reference to a
  sequence object.
\<close>

datatype 'r targets = One "'r actor" | Seq seq_ref

text \<open>
  Calling the coroutine function \<^verbatim>\<open>send\<close> only builds a coroutine object; its body
  runs when the object is awaited.
\<close>

datatype 'r recipient = To_actor "'r actor" | To_channel

datatype ('r, 'p) coroutine = Send_coroutine "'r recipient" 'p

text \<open>
  The program state: the context object \<open>self\<close>, the sequence objects (\<open>cells\<close>, with
  \<open>next_ref\<close> the first unused reference), the coroutine objects created so far and the
  messages handed to the delivery channel.
\<close>

record ('r, 'p) state =
  self :: "'r target_context"
  cells :: "seq_ref \<Rightarrow> 'r actor list"
  next_ref :: seq_ref
  created :: "('r, 'p) coroutine list"
  dispatched :: "('r recipient \<times> 'p) list"

section \<open>Target resolution\<close>

text \<open>The list display \<^verbatim>\<open>[doubtful]\<close> allocates a new sequence object.\<close>

definition new_list :: "'r actor list \<Rightarrow> ('r, 'p) state \<Rightarrow> seq_ref \<times> ('r, 'p) state" where
  "new_list xs s =
     (next_ref s, s\<lparr>cells := (cells s)(next_ref s := xs), next_ref := Suc (next_ref s)\<rparr>)"

fun maybe_sequence :: "'r targets \<Rightarrow> ('r, 'p) state \<Rightarrow> seq_ref \<times> ('r, 'p) state" where
  "maybe_sequence (One doubtful) s = new_list [doubtful] s"
| "maybe_sequence (Seq doubtful) s = (doubtful, s)"

text \<open>The property \<^verbatim>\<open>targets\<close>: its getter and its setter.\<close>

definition targets :: "('r, 'p) state \<Rightarrow> seq_ref" where
  "targets s = target (self s)"

definition targets_set :: "'r targets \<Rightarrow> ('r, 'p) state \<Rightarrow> ('r, 'p) state" where
  "targets_set user s =
     (case maybe_sequence user s of
        (r, s') \<Rightarrow> s'\<lparr>self := (self s')\<lparr>target := r\<rparr>\<rparr>)"

definition is_author_target :: "('r, 'p) state \<Rightarrow> bool \<times> ('r, 'p) state" where
  "is_author_target s = (contains (author (self s)) (cells s (targets s)), s)"

definition is_user_target :: "'r actor \<Rightarrow> ('r, 'p) state \<Rightarrow> bool \<times> ('r, 'p) state" where
  "is_user_target user s = (contains user (cells s (targets s)), s)"

section \<open>Hierarchy comparison\<close>

text \<open>
  The loop of \<^verbatim>\<open>_above_check\<close>. Each iteration tests the owner first, then reads
  \<^verbatim>\<open>member.top_role\<close> and \<^verbatim>\<open>user.top_role\<close>; an AttributeError from either becomes
  a TypeError naming the type of \<^verbatim>\<open>member\<close>.
\<close>

definition users_message :: "'r actor \<Rightarrow> string" where
  "users_message member =
     ''Expected all users to be of type discord.Member instead encountered '' @ type_repr member"

fun above_loop ::
  "'r::ord actor option \<Rightarrow> 'r actor \<Rightarrow> 'r actor list \<Rightarrow> error + bool \<times> 'r actor option" where
  "above_loop own user [] = Inr (True, None)"
| "above_loop own user (member # rest) =
     (if eq_optional member own then Inr (False, Some member)
      else (case top_role member of
              None \<Rightarrow> Inl (TypeError (users_message member))
            | Some mr \<Rightarrow>
                (case top_role user of
                   None \<Rightarrow> Inl (TypeError (users_message member))
                 | Some ur \<Rightarrow>
                     if mr > ur then Inr (False, Some member)
                     else above_loop own user rest)))"

definition guild_message :: "string \<Rightarrow> string" where
  "guild_message q = ''Expected discord.Guild instance at '' @ q @ ''.guild instead got None''"

definition above_check ::
  "'r::ord actor \<Rightarrow> 'r targets option \<Rightarrow> ('r, 'p) state
     \<Rightarrow> (error + bool \<times> 'r actor option) \<times> ('r, 'p) state" where
  "above_check user users s =
     (case guild (self s) of
        None \<Rightarrow> (Inl (ValueError (guild_message (qualname (self s)))), s)
      | Some g \<Rightarrow>
          (let tgts = targets s in
           if eq_optional user (owner g) then (Inr (True, None), s)
           else (case (case users of None \<Rightarrow> (tgts, s) | Some u \<Rightarrow> maybe_sequence u s) of
                   (r, s') \<Rightarrow> (above_loop (owner g) user (cells s' r), s'))))"

definition author_message :: "'r actor \<Rightarrow> string" where
  "author_message a =
     ''Message author is of type '' @ type_repr a @ '', expected discord.Member instance.''"

definition is_author_above ::
  "'r::ord targets option \<Rightarrow> ('r, 'p) state
     \<Rightarrow> (error + bool \<times> 'r actor option) \<times> ('r, 'p) state" where
  "is_author_above users s =
     (if isinstance_Member (author (self s)) then above_check (author (self s)) users s
      else (Inl (TypeError (author_message (author (self s)))), s))"

definition me_message :: "string \<Rightarrow> 'r actor \<Rightarrow> string" where
  "me_message q a =
     q @ ''.me is of type '' @ type_repr a @ '', expected discord.Member instance.''"

definition is_bot_above ::
  "'r::ord targets option \<Rightarrow> ('r, 'p) state
     \<Rightarrow> (error + bool \<times> 'r actor option) \<times> ('r, 'p) state" where
  "is_bot_above users s =
     (if isinstance_Member (me (self s)) then above_check (me (self s)) users s
      else (Inl (TypeError (me_message (qualname (self s)) (me (self s)))), s))"

section \<open>Notification\<close>

text \<open>
  \<^verbatim>\<open>x.send(...)\<close> as a call: the coroutine object is created and returned.
  \<^verbatim>\<open>await c\<close> runs the coroutine: the message goes to the delivery channel.
\<close>

definition send ::
  "'r recipient \<Rightarrow> 'p \<Rightarrow> ('r, 'p) state \<Rightarrow> ('r, 'p) coroutine \<times> ('r, 'p) state" where
  "send to p s = (Send_coroutine to p, s\<lparr>created := created s @ [Send_coroutine to p]\<rparr>)"

fun await :: "('r, 'p) coroutine \<Rightarrow> ('r, 'p) state \<Rightarrow> ('r, 'p) state" where
  "await (Send_coroutine to p) s = s\<lparr>dispatched := dispatched s @ [(to, p)]\<rparr>"

text \<open>
  The loop of \<^verbatim>\<open>whisper\<close>: the statement \<^verbatim>\<open>target.send(*args, **kwargs)\<close> calls
  \<^verbatim>\<open>send\<close> and drops the coroutine object it returns.
\<close>

fun whisper_loop :: "'r actor list \<Rightarrow> 'p \<Rightarrow> ('r, 'p) state \<Rightarrow> ('r, 'p) state" where
  "whisper_loop [] p s = s"
| "whisper_loop (tgt # rest) p s =
     (case send (To_actor tgt) p s of (c, s') \<Rightarrow> whisper_loop rest p s')"

definition whisper ::
  "'r targets option \<Rightarrow> 'p \<Rightarrow> ('r, 'p) state \<Rightarrow> unit \<times> ('r, 'p) state" where
  "whisper users p s =
     (let users' = (case users of None \<Rightarrow> Seq (targets s) | Some u \<Rightarrow> u) in
      case maybe_sequence users' s of
        (r, s') \<Rightarrow> ((), whisper_loop (cells s' r) p s'))"

text \<open>\<^verbatim>\<open>EmbedingContext.send_embed\<close> awaits the coroutine it creates.\<close>

definition send_embed :: "'p \<Rightarrow> ('r, 'p) state \<Rightarrow> ('r, 'p) state" where
  "send_embed p s = (case send To_channel p s of (c, s') \<Rightarrow> await c s')"

section \<open>Notions used in the statements\<close>

text \<open>
  The candidate sequence that \<^verbatim>\<open>_above_check\<close> iterates over: the current targets
  when \<^verbatim>\<open>users\<close> is omitted, a lone actor as a one-element sequence, a sequence as
  it is.
\<close>

definition candidates :: "'r targets option \<Rightarrow> ('r, 'p) state \<Rightarrow> 'r actor list" where
  "candidates users s =
     (case users of
        None \<Rightarrow> cells s (targets s)
      | Some (One a) \<Rightarrow> [a]
      | Some (Seq r) \<Rightarrow> cells s r)"

text \<open>
  A candidate blocks the privileged actor when it equals the guild owner or its top
  role is strictly greater than the privileged actor's; the loop passes a candidate
  that is a member and does not block.
\<close>

fun outranks :: "'r::ord actor \<Rightarrow> 'r actor \<Rightarrow> bool" where
  "outranks (Member i cr) (Member j ur) = (cr > ur)"
| "outranks c u = False"

definition blocks :: "'r::ord actor option \<Rightarrow> 'r actor \<Rightarrow> 'r actor \<Rightarrow> bool" where
  "blocks own user c = (eq_optional c own \<or> outranks c user)"

definition passes :: "'r::ord actor option \<Rightarrow> 'r actor \<Rightarrow> 'r actor \<Rightarrow> bool" where
  "passes own user c = (isinstance_Member c \<and> \<not> blocks own user c)"

text \<open>Concrete states, for the instances below.\<close>

definition example_state ::
  "int actor \<Rightarrow> int guild option \<Rightarrow> int actor list \<Rightarrow> (int, string) state" where
  "example_state a g ts =
     \<lparr>self = \<lparr>author = a, me = Member 3 9, guild = g, target = 0,
              qualname = ''TargetContext''\<rparr>,
      cells = (\<lambda>r. [])(0 := ts), next_ref = 1, created = [], dispatched = []\<rparr>"

definition example_guild :: "int guild" where
  "example_guild = \<lparr>owner = Some (Member 1 0)\<rparr>"

section \<open>The loop of the hierarchy comparison\<close>

lemma fst_above_check:
  "guild (self s) = Some g \<Longrightarrow> \<not> eq_optional user (owner g) \<Longrightarrow>
   fst (above_check user users s) = above_loop (owner g) user (candidates users s)"
  by (auto simp: above_check_def candidates_def new_list_def
      split: option.splits targets.splits)

lemma above_loop_passes:
  "isinstance_Member user \<Longrightarrow> list_all (passes own user) pre \<Longrightarrow>
   above_loop own user (pre @ rest) = above_loop own user rest"
proof (induction pre)
  case Nil
  then show ?case by simp
next
  case (Cons c pre)
  then show ?case
    by (cases c; cases user) (simp_all add: passes_def blocks_def)
qed

lemma above_loop_returns:
  "above_loop own user cs = Inr (b, a) \<Longrightarrow>
   b = (find (blocks own user) cs = None) \<and> a = find (blocks own user) cs"
proof (induction cs)
  case Nil
  then show ?case by simp
next
  case (Cons c cs)
  then show ?case
    by (cases c; cases user) (auto simp: blocks_def split: if_splits)
qed

lemma above_loop_prefix:
  "isinstance_Member user \<Longrightarrow>
   list_all isinstance_Member (takeWhile (\<lambda>c. \<not> blocks own user c) cs) \<Longrightarrow>
   above_loop own user cs = Inr (find (blocks own user) cs = None, find (blocks own user) cs)"
proof (induction cs)
  case Nil
  then show ?case by simp
next
  case (Cons c cs)
  show ?case
  proof (cases "blocks own user c")
    case True
    with Cons.prems(1) show ?thesis
      by (cases c; cases user) (auto simp: blocks_def)
  next
    case False
    with Cons show ?thesis
      by (cases c; cases user) (simp_all add: blocks_def)
  qed
qed

section \<open>Results\<close>

text \<open>
  C1, as stated, fails: a lone candidate that is not a member and does not equal the
  owner blocks nothing, yet \<^verbatim>\<open>_above_check\<close> raises the TypeError and returns no
  pair.
\<close>

theorem above_check_contract_counterexample:
  "candidates (Some (One (User 7))) (example_state (Member 2 5) (Some example_guild) [])
     = [User 7]
   \<and> \<not> blocks (owner example_guild) (Member 2 5) (User 7 :: int actor)
   \<and> fst (above_check (Member 2 5) (Some (One (User 7)))
        (example_state (Member 2 5) (Some example_guild) []))
       = Inl (TypeError (''Expected all users to be of type discord.Member instead encountered ''
                @ ''<class 'discord.user.User'>''))"
  by (simp add: above_check_def example_state_def example_guild_def candidates_def
      new_list_def actor_eq_def blocks_def users_message_def)

text \<open>
  C1, amended. In a guild context, for a privileged member that is not the guild owner:
  when every candidate before the first blocking one (every candidate, when none blocks)
  is a member, \<^verbatim>\<open>_above_check\<close> returns a pair whose boolean is true exactly when no
  candidate blocks and whose actor is the first blocking candidate in sequence order
  (\<open>None\<close> when there is none), whatever stands after the first blocking candidate.
  Whenever the call returns a pair at all, the pair is this one; an empty candidate
  sequence gives \<open>(True, None)\<close>.
\<close>

theorem above_check_contract:
  assumes "guild (self s) = Some g"
    and "isinstance_Member user"
    and "\<not> eq_optional user (owner g)"
  shows "(list_all isinstance_Member
            (takeWhile (\<lambda>c. \<not> blocks (owner g) user c) (candidates users s)) \<longrightarrow>
           fst (above_check user users s) =
             Inr (find (blocks (owner g) user) (candidates users s) = None,
                  find (blocks (owner g) user) (candidates users s)))
       \<and> (\<forall>b a. fst (above_check user users s) = Inr (b, a) \<longrightarrow>
             b = (find (blocks (owner g) user) (candidates users s) = None)
           \<and> a = find (blocks (owner g) user) (candidates users s))
       \<and> (candidates users s = [] \<longrightarrow> fst (above_check user users s) = Inr (True, None))"
proof -
  have eq: "fst (above_check user users s) = above_loop (owner g) user (candidates users s)"
    using assms(1,3) by (rule fst_above_check)
  have prefix: "list_all isinstance_Member
        (takeWhile (\<lambda>c. \<not> blocks (owner g) user c) (candidates users s)) \<longrightarrow>
      fst (above_check user users s) =
        Inr (find (blocks (owner g) user) (candidates users s) = None,
             find (blocks (owner g) user) (candidates users s))"
    using assms(2) by (simp add: eq above_loop_prefix)
  have returns: "\<forall>b a. fst (above_check user users s) = Inr (b, a) \<longrightarrow>
        b = (find (blocks (owner g) user) (candidates users s) = None)
      \<and> a = find (blocks (owner g) user) (candidates users s)"
    unfolding eq by (blast dest: above_loop_returns)
  have empty: "candidates users s = [] \<longrightarrow> fst (above_check user users s) = Inr (True, None)"
    by (simp add: eq)
  from prefix returns empty show ?thesis by blast
qed

theorem above_check_contract_witness:
  "guild (self (example_state (Member 2 5) (Some example_guild)
      [Member 11 3, Member 12 7, User 7])) = Some example_guild
   \<and> isinstance_Member (Member 2 (5::int))
   \<and> \<not> eq_optional (Member 2 (5::int)) (owner example_guild)
   \<and> takeWhile (\<lambda>c. \<not> blocks (owner example_guild) (Member 2 5) c)
        (candidates None (example_state (Member 2 5) (Some example_guild)
          [Member 11 3, Member 12 7, User 7])) = [Member 11 3]
   \<and> list_all isinstance_Member [Member 11 (3::int)]
   \<and> fst (above_check (Member 2 5) None (example_state (Member 2 5) (Some example_guild)
      [Member 11 3, Member 12 7, User 7])) = Inr (False, Some (Member 12 7))
   \<and> fst (above_check (Member 2 5) None (example_state (Member 2 5) (Some example_guild)
      [Member 11 3, Member 13 4])) = Inr (True, None)"
  using above_check_contract [of "example_state (Member 2 5) (Some example_guild)
      [Member 11 3, Member 12 7, User 7]" example_guild "Member 2 5" None]
    above_check_contract [of "example_state (Member 2 5) (Some example_guild)
      [Member 11 3, Member 13 4]" example_guild "Member 2 5" None]
  by (simp add: example_state_def example_guild_def candidates_def targets_def blocks_def
      actor_eq_def)

text \<open>
  C2. In a guild context, when the privileged actor equals the guild owner,
  \<^verbatim>\<open>_above_check\<close> returns \<open>(True, None)\<close> whatever the candidates are, malformed
  ones included; the candidates are not resolved and the state is left as it was.
\<close>

theorem owner_above_all:
  assumes "guild (self s) = Some g"
    and "eq_optional user (owner g)"
  shows "above_check user users s = (Inr (True, None), s)"
  using assms by (simp add: above_check_def)

theorem owner_above_all_witness:
  "guild (self (example_state (Member 1 0) (Some example_guild) [])) = Some example_guild
   \<and> eq_optional (Member 1 (0::int)) (owner example_guild)
   \<and> fst (above_check (Member 1 0) (Some (One (User 7)))
        (example_state (Member 1 0) (Some example_guild) [])) = Inr (True, None)"
  using owner_above_all [of "example_state (Member 1 0) (Some example_guild) []"
      example_guild "Member 1 0" "Some (One (User 7))"]
  by (simp add: example_state_def example_guild_def actor_eq_def)

text \<open>
  C3. In a guild context, for a privileged member that is not the guild owner, a
  candidate equal to the guild owner that the loop reaches (every earlier candidate is
  a member that does not block) makes \<^verbatim>\<open>_above_check\<close> return \<open>(False, candidate)\<close>,
  whatever the candidate's own role rank: the owner test comes before the rank
  comparison.
\<close>

theorem owner_candidate_blocks:
  assumes "guild (self s) = Some g"
    and "isinstance_Member user"
    and "\<not> eq_optional user (owner g)"
    and "candidates users s = pre @ c # post"
    and "list_all (passes (owner g) user) pre"
    and "eq_optional c (owner g)"
  shows "fst (above_check user users s) = Inr (False, Some c)"
proof -
  have "fst (above_check user users s) = above_loop (owner g) user (pre @ c # post)"
    using assms(1,3,4) by (simp add: fst_above_check)
  also have "\<dots> = above_loop (owner g) user (c # post)"
    using assms(2,5) by (rule above_loop_passes)
  also have "\<dots> = Inr (False, Some c)"
    using assms(6) by simp
  finally show ?thesis .
qed

theorem owner_candidate_blocks_witness:
  "guild (self (example_state (Member 2 5) (Some example_guild) [])) = Some example_guild
   \<and> isinstance_Member (Member 2 (5::int))
   \<and> \<not> eq_optional (Member 2 (5::int)) (owner example_guild)
   \<and> candidates (Some (Seq 0)) (example_state (Member 2 5) (Some example_guild)
        [Member 11 3, Member 1 0, Member 12 7]) = [Member 11 3] @ Member 1 0 # [Member 12 7]
   \<and> list_all (passes (owner example_guild) (Member 2 5)) [Member 11 3]
   \<and> eq_optional (Member 1 (0::int)) (owner example_guild)
   \<and> \<not> outranks (Member 1 (0::int)) (Member 2 5)
   \<and> fst (above_check (Member 2 5) (Some (Seq 0)) (example_state (Member 2 5)
        (Some example_guild) [Member 11 3, Member 1 0, Member 12 7]))
       = Inr (False, Some (Member 1 0))"
  using owner_candidate_blocks [of "example_state (Member 2 5) (Some example_guild)
        [Member 11 3, Member 1 0, Member 12 7]" example_guild "Member 2 5" "Some (Seq 0)"
        "[Member 11 3]" "Member 1 0" "[Member 12 7]"]
  by (simp add: example_state_def example_guild_def candidates_def passes_def blocks_def
      actor_eq_def)

text \<open>
  C4, as stated, fails: a candidate that is not a member but carries the id of the guild
  owner is equal to the owner, so the owner test of the loop returns
  \<open>(False, candidate)\<close> before \<^verbatim>\<open>top_role\<close> is read and no TypeError is raised.
\<close>

theorem not_member_type_error_counterexample:
  "\<not> isinstance_Member (User 1 :: int actor)
   \<and> candidates (Some (One (User 1))) (example_state (Member 2 5) (Some example_guild) [])
       = [User 1]
   \<and> fst (is_author_above (Some (One (User 1)))
        (example_state (Member 2 5) (Some example_guild) [])) = Inr (False, Some (User 1))
   \<and> fst (is_bot_above (Some (One (User 1)))
        (example_state (Member 2 5) (Some example_guild) [])) = Inr (False, Some (User 1))"
  by (simp add: is_author_above_def is_bot_above_def above_check_def example_state_def
      example_guild_def candidates_def new_list_def actor_eq_def)

text \<open>
  C4, amended. For an actor \<open>A\<close> that is not a member: \<^verbatim>\<open>is_author_above\<close> raises
  TypeError when \<open>A\<close> is the author and \<^verbatim>\<open>is_bot_above\<close> raises TypeError when \<open>A\<close>
  is the bot's identity; both raise TypeError when \<open>A\<close> is a candidate that the loop
  reaches and \<open>A\<close> does not equal the guild owner. Each message contains the type of
  \<open>A\<close>.
\<close>

theorem not_member_type_error:
  assumes "\<not> isinstance_Member A"
  shows "(author (self s) = A \<longrightarrow>
            is_author_above users s =
              (Inl (TypeError (''Message author is of type '' @ type_repr A
                      @ '', expected discord.Member instance.'')), s))
       \<and> (me (self s) = A \<longrightarrow>
            is_bot_above users s =
              (Inl (TypeError (qualname (self s) @ ''.me is of type '' @ type_repr A
                      @ '', expected discord.Member instance.'')), s))
       \<and> (guild (self s) = Some g \<and> candidates users s = pre @ A # post
            \<and> \<not> eq_optional A (owner g) \<longrightarrow>
              (isinstance_Member (author (self s))
               \<and> \<not> eq_optional (author (self s)) (owner g)
               \<and> list_all (passes (owner g) (author (self s))) pre \<longrightarrow>
                 fst (is_author_above users s) =
                   Inl (TypeError (''Expected all users to be of type discord.Member instead encountered ''
                          @ type_repr A)))
            \<and> (isinstance_Member (me (self s))
               \<and> \<not> eq_optional (me (self s)) (owner g)
               \<and> list_all (passes (owner g) (me (self s))) pre \<longrightarrow>
                 fst (is_bot_above users s) =
                   Inl (TypeError (''Expected all users to be of type discord.Member instead encountered ''
                          @ type_repr A))))"
proof -
  have malformed: "above_loop own user (A # post) = Inl (TypeError (users_message A))"
    if "\<not> eq_optional A own" for own :: "'a actor option" and user post
    using that assms by (cases A) simp_all
  have reached: "fst (above_check user users s) = Inl (TypeError (users_message A))"
    if "guild (self s) = Some g" "candidates users s = pre @ A # post"
      "\<not> eq_optional A (owner g)" "isinstance_Member user"
      "\<not> eq_optional user (owner g)" "list_all (passes (owner g) user) pre"
    for g pre post user
  proof -
    have "fst (above_check user users s) = above_loop (owner g) user (pre @ A # post)"
      using that(1,2,5) by (simp add: fst_above_check)
    also have "\<dots> = above_loop (owner g) user (A # post)"
      using that(4,6) by (rule above_loop_passes)
    also have "\<dots> = Inl (TypeError (users_message A))"
      using that(3) by (rule malformed)
    finally show ?thesis .
  qed
  have author_case: "author (self s) = A \<longrightarrow>
      is_author_above users s =
        (Inl (TypeError (''Message author is of type '' @ type_repr A
                @ '', expected discord.Member instance.'')), s)"
    using assms by (simp add: is_author_above_def author_message_def)
  have me_case: "me (self s) = A \<longrightarrow>
      is_bot_above users s =
        (Inl (TypeError (qualname (self s) @ ''.me is of type '' @ type_repr A
                @ '', expected discord.Member instance.'')), s)"
    using assms by (simp add: is_bot_above_def me_message_def)
  have candidate_case: "fst (is_author_above users s) =
        Inl (TypeError (''Expected all users to be of type discord.Member instead encountered ''
               @ type_repr A))"
    if "guild (self s) = Some g" "candidates users s = pre @ A # post"
      "\<not> eq_optional A (owner g)" "isinstance_Member (author (self s))"
      "\<not> eq_optional (author (self s)) (owner g)"
      "list_all (passes (owner g) (author (self s))) pre"
    using reached [OF that] that(4) by (simp add: is_author_above_def users_message_def)
  have candidate_case_bot: "fst (is_bot_above users s) =
        Inl (TypeError (''Expected all users to be of type discord.Member instead encountered ''
               @ type_repr A))"
    if "guild (self s) = Some g" "candidates users s = pre @ A # post"
      "\<not> eq_optional A (owner g)" "isinstance_Member (me (self s))"
      "\<not> eq_optional (me (self s)) (owner g)"
      "list_all (passes (owner g) (me (self s))) pre"
    using reached [OF that] that(4) by (simp add: is_bot_above_def users_message_def)
  show ?thesis
    using author_case me_case candidate_case candidate_case_bot by blast
qed

theorem not_member_type_error_witness:
  "\<not> isinstance_Member (User 7 :: int actor)
   \<and> guild (self (example_state (Member 2 5) (Some example_guild) [Member 11 3, User 7]))
       = Some example_guild
   \<and> candidates None (example_state (Member 2 5) (Some example_guild) [Member 11 3, User 7])
       = [Member 11 3] @ User 7 # []
   \<and> \<not> eq_optional (User 7 :: int actor) (owner example_guild)
   \<and> isinstance_Member (author (self (example_state (Member 2 5) (Some example_guild)
        [Member 11 3, User 7])))
   \<and> \<not> eq_optional (author (self (example_state (Member 2 5) (Some example_guild)
        [Member 11 3, User 7]))) (owner example_guild)
   \<and> list_all (passes (owner example_guild) (author (self (example_state (Member 2 5)
        (Some example_guild) [Member 11 3, User 7])))) [Member 11 3]
   \<and> fst (is_author_above None (example_state (Member 2 5) (Some example_guild)
        [Member 11 3, User 7]))
       = Inl (TypeError (''Expected all users to be of type discord.Member instead encountered ''
                @ ''<class 'discord.user.User'>''))
   \<and> author (self (example_state (User 7) (Some example_guild) [])) = User 7
   \<and> fst (is_author_above None (example_state (User 7) (Some example_guild) []))
       = Inl (TypeError (''Message author is of type '' @ ''<class 'discord.user.User'>''
                @ '', expected discord.Member instance.''))"
  using not_member_type_error [of "User 7"
      "example_state (Member 2 5) (Some example_guild) [Member 11 3, User 7]" None
      example_guild "[Member 11 3]" "[]"]
    not_member_type_error [of "User 7" "example_state (User 7) (Some example_guild) []" None
      example_guild "[]" "[]"]
  by (simp add: example_state_def example_guild_def candidates_def targets_def passes_def
      blocks_def actor_eq_def)

text \<open>
  C5, as stated, fails: a candidate that blocks and stands before the malformed one
  ends the loop first, so the call returns \<open>(False, blocker)\<close> and raises nothing.
\<close>

theorem malformed_before_owner_counterexample:
  "candidates (Some (Seq 0)) (example_state (Member 2 5) (Some example_guild)
      [Member 12 7, User 7, Member 1 0]) = [Member 12 7, User 7, Member 1 0]
   \<and> \<not> isinstance_Member (User 7 :: int actor)
   \<and> eq_optional (Member 1 (0::int)) (owner example_guild)
   \<and> fst (above_check (Member 2 5) (Some (Seq 0)) (example_state (Member 2 5)
        (Some example_guild) [Member 12 7, User 7, Member 1 0]))
       = Inr (False, Some (Member 12 7))"
  by (simp add: above_check_def example_state_def example_guild_def candidates_def
      actor_eq_def)

text \<open>
  C5, amended. In a guild context with a privileged member that is not the owner, let a
  malformed candidate \<open>A\<close>, not equal to the owner, stand before a candidate \<open>c\<close> equal to
  the owner, every candidate before \<open>A\<close> being a member that does not block. Then
  \<^verbatim>\<open>_above_check\<close> raises the TypeError for \<open>A\<close> and does not return \<open>(False, c)\<close>.
\<close>

theorem malformed_before_owner:
  assumes "guild (self s) = Some g"
    and "isinstance_Member user"
    and "\<not> eq_optional user (owner g)"
    and "candidates users s = pre @ A # mid @ c # post"
    and "list_all (passes (owner g) user) pre"
    and "\<not> isinstance_Member A"
    and "\<not> eq_optional A (owner g)"
    and "eq_optional c (owner g)"
  shows "fst (above_check user users s) =
           Inl (TypeError (''Expected all users to be of type discord.Member instead encountered ''
                  @ type_repr A))
       \<and> fst (above_check user users s) \<noteq> Inr (False, Some c)"
proof -
  have "fst (above_check user users s) = above_loop (owner g) user (pre @ A # mid @ c # post)"
    using assms(1,3,4) by (simp add: fst_above_check)
  also have "\<dots> = above_loop (owner g) user (A # mid @ c # post)"
    using assms(2,5) by (rule above_loop_passes)
  also have "\<dots> = Inl (TypeError (users_message A))"
    using assms(6,7) by (cases A) simp_all
  finally show ?thesis by (simp add: users_message_def)
qed

theorem malformed_before_owner_witness:
  "guild (self (example_state (Member 2 5) (Some example_guild)
      [Member 11 3, User 7, Member 12 7, Member 1 0])) = Some example_guild
   \<and> isinstance_Member (Member 2 (5::int))
   \<and> \<not> eq_optional (Member 2 (5::int)) (owner example_guild)
   \<and> candidates (Some (Seq 0)) (example_state (Member 2 5) (Some example_guild)
        [Member 11 3, User 7, Member 12 7, Member 1 0])
       = [Member 11 3] @ User 7 # [Member 12 7] @ Member 1 0 # []
   \<and> list_all (passes (owner example_guild) (Member 2 5)) [Member 11 3]
   \<and> \<not> isinstance_Member (User 7 :: int actor)
   \<and> \<not> eq_optional (User 7 :: int actor) (owner example_guild)
   \<and> eq_optional (Member 1 (0::int)) (owner example_guild)
   \<and> fst (above_check (Member 2 5) (Some (Seq 0)) (example_state (Member 2 5)
        (Some example_guild) [Member 11 3, User 7, Member 12 7, Member 1 0]))
       = Inl (TypeError (''Expected all users to be of type discord.Member instead encountered ''
                @ ''<class 'discord.user.User'>''))"
  using malformed_before_owner [of "example_state (Member 2 5) (Some example_guild)
        [Member 11 3, User 7, Member 12 7, Member 1 0]" example_guild "Member 2 5"
        "Some (Seq 0)" "[Member 11 3]" "User 7" "[Member 12 7]" "Member 1 0" "[]"]
  by (simp add: example_state_def example_guild_def candidates_def passes_def blocks_def
      actor_eq_def)

text \<open>
  C6, as stated, fails: without a guild, \<^verbatim>\<open>is_author_above\<close> tests the class of the
  author before it calls \<^verbatim>\<open>_above_check\<close>, and an author that is not a member gets the
  TypeError, not the ValueError.
\<close>

theorem no_guild_counterexample:
  "guild (self (example_state (User 2) None [])) = None
   \<and> fst (is_author_above None (example_state (User 2) None []))
       = Inl (TypeError (''Message author is of type '' @ ''<class 'discord.user.User'>''
                @ '', expected discord.Member instance.''))"
  by (simp add: is_author_above_def author_message_def example_state_def)

text \<open>
  C6, amended. Without a guild, \<^verbatim>\<open>_above_check\<close> raises the ValueError before
  anything else and leaves the state as it was; \<^verbatim>\<open>is_author_above\<close> and
  \<^verbatim>\<open>is_bot_above\<close> raise that ValueError when the author, respectively the bot's
  identity, is a member, and the TypeError of their own class test otherwise. None of them
  returns a result.
\<close>

theorem no_guild_value_error:
  assumes "guild (self s) = None"
  shows "above_check user users s =
           (Inl (ValueError (''Expected discord.Guild instance at '' @ qualname (self s)
                   @ ''.guild instead got None'')), s)
       \<and> (isinstance_Member (author (self s)) \<longrightarrow>
            is_author_above users s =
              (Inl (ValueError (''Expected discord.Guild instance at '' @ qualname (self s)
                      @ ''.guild instead got None'')), s))
       \<and> (isinstance_Member (me (self s)) \<longrightarrow>
            is_bot_above users s =
              (Inl (ValueError (''Expected discord.Guild instance at '' @ qualname (self s)
                      @ ''.guild instead got None'')), s))
       \<and> (\<not> isinstance_Member (author (self s)) \<longrightarrow>
            is_author_above users s =
              (Inl (TypeError (''Message author is of type '' @ type_repr (author (self s))
                      @ '', expected discord.Member instance.'')), s))
       \<and> (\<not> isinstance_Member (me (self s)) \<longrightarrow>
            is_bot_above users s =
              (Inl (TypeError (qualname (self s) @ ''.me is of type '' @ type_repr (me (self s))
                      @ '', expected discord.Member instance.'')), s))"
  using assms
  by (simp add: above_check_def is_author_above_def is_bot_above_def guild_message_def
      author_message_def me_message_def)

theorem no_guild_value_error_witness:
  "guild (self (example_state (Member 2 5) None [Member 11 3])) = None
   \<and> isinstance_Member (author (self (example_state (Member 2 5) None [Member 11 3])))
   \<and> isinstance_Member (me (self (example_state (Member 2 5) None [Member 11 3])))
   \<and> fst (above_check (Member 2 5) None (example_state (Member 2 5) None [Member 11 3]))
       = Inl (ValueError ''Expected discord.Guild instance at TargetContext.guild instead got None'')
   \<and> fst (is_author_above None (example_state (Member 2 5) None [Member 11 3]))
       = Inl (ValueError ''Expected discord.Guild instance at TargetContext.guild instead got None'')
   \<and> fst (is_bot_above None (example_state (Member 2 5) None [Member 11 3]))
       = Inl (ValueError ''Expected discord.Guild instance at TargetContext.guild instead got None'')"
  using no_guild_value_error [of "example_state (Member 2 5) None [Member 11 3]"
      "Member 2 5" None]
  by (simp add: example_state_def)

section \<open>Notification and the frame of the operations\<close>

text \<open>
  What \<^verbatim>\<open>whisper\<close> does to the state: one coroutine object per resolved actor, in
  sequence order, and no message handed to the delivery channel. \<^verbatim>\<open>send_embed\<close>, which
  awaits its coroutine, does hand its message over.
\<close>

lemma maybe_sequence_frame:
  "self (snd (maybe_sequence u s)) = self s
   \<and> created (snd (maybe_sequence u s)) = created s
   \<and> dispatched (snd (maybe_sequence u s)) = dispatched s
   \<and> (r < next_ref s \<longrightarrow> cells (snd (maybe_sequence u s)) r = cells s r)"
  by (cases u) (simp_all add: new_list_def)

lemma whisper_loop_effect:
  "whisper_loop ts p s =
     s\<lparr>created := created s @ map (\<lambda>t. Send_coroutine (To_actor t) p) ts\<rparr>"
  by (induction ts arbitrary: s) (simp_all add: send_def)

lemma whisper_effect:
  "fst (whisper users p s) = ()
   \<and> self (snd (whisper users p s)) = self s
   \<and> created (snd (whisper users p s)) =
       created s @ map (\<lambda>t. Send_coroutine (To_actor t) p) (candidates users s)
   \<and> dispatched (snd (whisper users p s)) = dispatched s"
proof (cases users)
  case None
  then show ?thesis
    by (simp add: whisper_def whisper_loop_effect candidates_def)
next
  case (Some u)
  then show ?thesis
    by (cases u) (simp_all add: whisper_def whisper_loop_effect candidates_def new_list_def)
qed

lemma send_embed_dispatches:
  "dispatched (send_embed p s) = dispatched s @ [(To_channel, p)]"
  by (simp add: send_embed_def send_def)

lemma above_check_frame:
  "self (snd (above_check user users s)) = self s
   \<and> created (snd (above_check user users s)) = created s
   \<and> dispatched (snd (above_check user users s)) = dispatched s
   \<and> (r < next_ref s \<longrightarrow> cells (snd (above_check user users s)) r = cells s r)"
proof (cases "guild (self s)")
  case None
  then show ?thesis by (simp add: above_check_def)
next
  case (Some g)
  show ?thesis
  proof (cases users)
    case None
    with Some show ?thesis by (simp add: above_check_def)
  next
    case (Some u)
    with \<open>guild (self s) = Some g\<close> maybe_sequence_frame [of u s r] show ?thesis
      by (simp add: above_check_def split_beta)
  qed
qed

lemma whisper_cells:
  "r < next_ref s \<Longrightarrow> cells (snd (whisper users p s)) r = cells s r"
proof (cases users)
  case None
  then show ?thesis by (simp add: whisper_def whisper_loop_effect)
next
  case (Some u)
  assume "r < next_ref s"
  with Some show ?thesis
    by (cases u) (simp_all add: whisper_def whisper_loop_effect new_list_def)
qed

text \<open>
  C7. \<^verbatim>\<open>whisper\<close> resolves its argument as the other operations do and calls
  \<^verbatim>\<open>send\<close> with the payload for each resolved actor, but it neither awaits nor
  schedules the coroutine objects: on return no message has been dispatched. Evaluated
  for a lone actor and for the default targets.
\<close>

theorem whisper_dispatches_nothing:
  "created (snd (whisper (Some (One (User 7))) ''hello''
      (example_state (Member 2 5) (Some example_guild) [])))
     = [Send_coroutine (To_actor (User 7)) ''hello'']
   \<and> dispatched (snd (whisper (Some (One (User 7))) ''hello''
      (example_state (Member 2 5) (Some example_guild) []))) = []
   \<and> created (snd (whisper None ''hello''
      (example_state (Member 2 5) (Some example_guild) [User 7, Member 11 3])))
     = [Send_coroutine (To_actor (User 7)) ''hello'',
        Send_coroutine (To_actor (Member 11 3)) ''hello'']
   \<and> dispatched (snd (whisper None ''hello''
      (example_state (Member 2 5) (Some example_guild) [User 7, Member 11 3]))) = []"
  by (simp add: whisper_effect candidates_def targets_def example_state_def)

text \<open>
  C8. After \<^verbatim>\<open>targets\<close> is set to a lone actor \<open>a\<close>, reading it gives a sequence whose
  content is \<open>[a]\<close>. After it is set to a sequence object \<open>r\<close>, reading it gives the
  same object \<open>r\<close>, and no sequence object has been changed or created: same elements,
  same order, no copy. What is read afterwards does not depend on the targets held
  before: the assignment replaces them.
\<close>

theorem targets_set_get:
  "cells (targets_set (One a) s) (targets (targets_set (One a) s)) = [a]
   \<and> targets (targets_set (Seq r) s) = r
   \<and> cells (targets_set (Seq r) s) = cells s
   \<and> targets (targets_set v (s\<lparr>self := (self s)\<lparr>target := t\<rparr>\<rparr>)) = targets (targets_set v s)
   \<and> cells (targets_set v (s\<lparr>self := (self s)\<lparr>target := t\<rparr>\<rparr>)) = cells (targets_set v s)"
  by (cases v) (simp_all add: targets_set_def targets_def new_list_def)

text \<open>
  C9. \<^verbatim>\<open>is_author_target\<close> is \<^verbatim>\<open>is_user_target\<close> applied to the author; both are true
  exactly when some element of the current targets is equal, by the actor equality, to
  the actor asked about. Both are total: no error is raised.
\<close>

theorem author_target_is_user_target:
  "is_author_target s = is_user_target (author (self s)) s
   \<and> fst (is_user_target user s) = (\<exists>x \<in> set (cells s (targets s)). actor_eq user x)
   \<and> fst (is_author_target s) = (\<exists>x \<in> set (cells s (targets s)). actor_eq (author (self s)) x)"
  by (simp add: is_author_target_def is_user_target_def contains_def list_ex_iff)

theorem author_target_is_user_target_witness:
  "fst (is_author_target (example_state (Member 2 5) (Some example_guild)
      [Member 11 3, User 2]))
   \<and> fst (is_user_target (Member 2 5) (example_state (Member 2 5) (Some example_guild)
      [Member 11 3, User 2]))
   \<and> User 2 \<in> set (cells (example_state (Member 2 5) (Some example_guild)
      [Member 11 3, User 2]) (targets (example_state (Member 2 5) (Some example_guild)
      [Member 11 3, User 2])))
   \<and> actor_eq (Member 2 (5::int)) (User 2)
   \<and> \<not> fst (is_user_target (Member 12 7) (example_state (Member 2 5) (Some example_guild)
      [Member 11 3, User 2]))"
  using author_target_is_user_target [of "example_state (Member 2 5) (Some example_guild)
      [Member 11 3, User 2]" "Member 12 7"]
  by (simp add: example_state_def targets_def actor_eq_def is_author_target_def
      is_user_target_def contains_def)

text \<open>
  C10. \<^verbatim>\<open>is_author_target\<close> and \<^verbatim>\<open>is_user_target\<close> leave the whole state as it was.
  \<^verbatim>\<open>_above_check\<close>, \<^verbatim>\<open>is_author_above\<close> and \<^verbatim>\<open>is_bot_above\<close> leave the context
  object, the coroutine log and the delivery log as they were, and every sequence object
  that existed before the call keeps its content, whether the call returns a pair or
  raises: in particular the targets are the same object with the same content.
  \<^verbatim>\<open>whisper\<close>, the remaining operation that is not the assignment to \<^verbatim>\<open>targets\<close>,
  leaves the context object and every existing sequence object as they were too, so only
  that assignment changes the targets.
\<close>

theorem read_only_frame:
  "snd (is_author_target s) = s
   \<and> snd (is_user_target user s) = s
   \<and> self (snd (above_check user users s)) = self s
   \<and> self (snd (is_author_above users s)) = self s
   \<and> self (snd (is_bot_above users s)) = self s
   \<and> created (snd (above_check user users s)) = created s
   \<and> created (snd (is_author_above users s)) = created s
   \<and> created (snd (is_bot_above users s)) = created s
   \<and> dispatched (snd (above_check user users s)) = dispatched s
   \<and> dispatched (snd (is_author_above users s)) = dispatched s
   \<and> dispatched (snd (is_bot_above users s)) = dispatched s
   \<and> (r < next_ref s \<longrightarrow>
        cells (snd (above_check user users s)) r = cells s r
      \<and> cells (snd (is_author_above users s)) r = cells s r
      \<and> cells (snd (is_bot_above users s)) r = cells s r)
   \<and> (targets s < next_ref s \<longrightarrow>
        cells (snd (above_check user users s)) (targets (snd (above_check user users s)))
          = cells s (targets s)
      \<and> cells (snd (is_author_above users s)) (targets (snd (is_author_above users s)))
          = cells s (targets s)
      \<and> cells (snd (is_bot_above users s)) (targets (snd (is_bot_above users s)))
          = cells s (targets s))
   \<and> self (snd (whisper users p s)) = self s
   \<and> (r < next_ref s \<longrightarrow> cells (snd (whisper users p s)) r = cells s r)
   \<and> (targets s < next_ref s \<longrightarrow>
        cells (snd (whisper users p s)) (targets (snd (whisper users p s)))
          = cells s (targets s))"
  using above_check_frame [of user users s r]
    above_check_frame [of "author (self s)" users s r]
    above_check_frame [of "me (self s)" users s r]
    above_check_frame [of user users s "targets s"]
    above_check_frame [of "author (self s)" users s "targets s"]
    above_check_frame [of "me (self s)" users s "targets s"]
    whisper_cells [of r s users p]
    whisper_cells [of "targets s" s users p]
    whisper_effect [of users p s]
  by (simp add: is_author_target_def is_user_target_def is_author_above_def is_bot_above_def
      targets_def)

theorem read_only_frame_witness:
  "(0::nat) < next_ref (example_state (Member 2 5) (Some example_guild) [Member 11 3])
   \<and> targets (example_state (Member 2 5) (Some example_guild) [Member 11 3])
       < next_ref (example_state (Member 2 5) (Some example_guild) [Member 11 3])
   \<and> fst (is_author_above (Some (One (Member 12 7)))
        (example_state (Member 2 5) (Some example_guild) [Member 11 3]))
       = Inr (False, Some (Member 12 7))
   \<and> next_ref (snd (is_author_above (Some (One (Member 12 7)))
        (example_state (Member 2 5) (Some example_guild) [Member 11 3]))) = 2
   \<and> self (snd (is_author_above (Some (One (Member 12 7)))
        (example_state (Member 2 5) (Some example_guild) [Member 11 3])))
       = self (example_state (Member 2 5) (Some example_guild) [Member 11 3])
   \<and> cells (snd (is_author_above (Some (One (Member 12 7)))
        (example_state (Member 2 5) (Some example_guild) [Member 11 3]))) 0
       = [Member 11 3]
   \<and> next_ref (snd (whisper (Some (One (Member 12 7))) ''hello''
        (example_state (Member 2 5) (Some example_guild) [Member 11 3]))) = 2
   \<and> cells (snd (whisper (Some (One (Member 12 7))) ''hello''
        (example_state (Member 2 5) (Some example_guild) [Member 11 3]))) 0
       = [Member 11 3]"
  using read_only_frame [of "example_state (Member 2 5) (Some example_guild) [Member 11 3]"
      "Member 2 5" "Some (One (Member 12 7))" 0 "''hello''"]
  by (simp add: example_state_def example_guild_def targets_def is_author_above_def
      above_check_def new_list_def actor_eq_def whisper_def whisper_loop_effect)

end
